theory Spec2Isabelle
  imports Complex_Main
begin

section \<open>JavaScript numbers\<close>

text \<open>
  The calculator in \<^verbatim>\<open>terzaghi.js\<close> works on JavaScript numbers. A finite number is modelled
  as an exact real (the rounding of IEEE doubles and the sign of zero are abstracted away);
  the three non-finite values are kept, because the code can produce them: a division by
  zero does not raise in JavaScript, and arithmetic on \<^verbatim>\<open>undefined\<close> yields \<^verbatim>\<open>NaN\<close>.
\<close>

datatype number = Num real | NaN | Infinity | NegInfinity

fun js_add :: "number \<Rightarrow> number \<Rightarrow> number" where
  "js_add (Num a) (Num b) = Num (a + b)"
| "js_add NaN _ = NaN"
| "js_add _ NaN = NaN"
| "js_add Infinity NegInfinity = NaN"
| "js_add NegInfinity Infinity = NaN"
| "js_add Infinity _ = Infinity"
| "js_add _ Infinity = Infinity"
| "js_add NegInfinity _ = NegInfinity"
| "js_add _ NegInfinity = NegInfinity"

fun js_mul :: "number \<Rightarrow> number \<Rightarrow> number" where
  "js_mul (Num a) (Num b) = Num (a * b)"
| "js_mul NaN _ = NaN"
| "js_mul _ NaN = NaN"
| "js_mul Infinity (Num b) = (if b = 0 then NaN else if 0 < b then Infinity else NegInfinity)"
| "js_mul (Num a) Infinity = (if a = 0 then NaN else if 0 < a then Infinity else NegInfinity)"
| "js_mul NegInfinity (Num b) = (if b = 0 then NaN else if 0 < b then NegInfinity else Infinity)"
| "js_mul (Num a) NegInfinity = (if a = 0 then NaN else if 0 < a then NegInfinity else Infinity)"
| "js_mul Infinity Infinity = Infinity"
| "js_mul Infinity NegInfinity = NegInfinity"
| "js_mul NegInfinity Infinity = NegInfinity"
| "js_mul NegInfinity NegInfinity = Infinity"

fun js_div :: "number \<Rightarrow> number \<Rightarrow> number" where
  "js_div (Num a) (Num b) =
     (if b \<noteq> 0 then Num (a / b)
      else if 0 < a then Infinity else if a < 0 then NegInfinity else NaN)"
| "js_div NaN _ = NaN"
| "js_div _ NaN = NaN"
| "js_div (Num a) _ = Num 0"
| "js_div Infinity (Num b) = (if 0 \<le> b then Infinity else NegInfinity)"
| "js_div NegInfinity (Num b) = (if 0 \<le> b then NegInfinity else Infinity)"
| "js_div _ _ = NaN"

text \<open>\<^verbatim>\<open>Math.round\<close> rounds to the nearest integer, a tie going up: it is \<open>\<lfloor>x + 1/2\<rfloor>\<close>.\<close>

fun Math_round :: "number \<Rightarrow> number" where
  "Math_round (Num a) = Num (of_int \<lfloor>a + 1 / 2\<rfloor>)"
| "Math_round x = x"

section \<open>Global values\<close>

definition unitWeightWater :: real where
  "unitWeightWater = 62.4"

text \<open>Terzaghi bearing capacity factors: key \<open>phi\<close>, value \<open>(Nc, Nq, Ng)\<close>.\<close>

definition NTerzaghi :: "(int \<times> real \<times> real \<times> real) list" where
  "NTerzaghi =
    [(0, 5.7, 1, 0),
     (1, 6, 1.1, 0.1),
     (2, 6.3, 1.2, 0.1),
     (3, 6.6, 1.3, 0.2),
     (4, 7, 1.5, 0.3),
     (5, 7.3, 1.6, 0.4),
     (6, 7.7, 1.8, 0.5),
     (7, 8.2, 2, 0.6),
     (8, 8.6, 2.2, 0.7),
     (9, 9.1, 2.4, 0.9),
     (10, 9.6, 2.7, 1),
     (11, 10.2, 3, 1.2),
     (12, 10.8, 3.3, 1.4),
     (13, 11.4, 3.6, 1.6),
     (14, 12.1, 4, 1.9),
     (15, 12.9, 4.4, 2.2),
     (16, 13.7, 4.9, 2.5),
     (17, 14.6, 5.5, 2.9),
     (18, 15.5, 6, 3.3),
     (19, 16.6, 6.7, 3.8),
     (20, 17.7, 7.4, 4.4),
     (21, 18.9, 8.3, 5.1),
     (22, 20.3, 9.2, 5.9),
     (23, 21.7, 10.2, 6.8),
     (24, 23.4, 11.4, 7.9),
     (25, 25.1, 12.7, 9.2),
     (26, 27.1, 14.2, 10.7),
     (27, 29.2, 15.9, 12.5),
     (28, 31.6, 17.8, 14.6),
     (29, 34.2, 20, 17.1),
     (30, 37.2, 22.5, 20.1),
     (31, 40.4, 25.3, 23.7),
     (32, 44, 28.5, 28),
     (33, 48.1, 32.2, 33.3),
     (34, 52.6, 36.5, 39.6),
     (35, 57.8, 41.4, 47.3),
     (36, 63.5, 47.2, 56.7),
     (37, 70.1, 53.8, 68.1),
     (38, 77.5, 61.5, 82.3),
     (39, 86, 70.6, 99.8),
     (40, 95.7, 81.3, 121.5),
     (41, 106.8, 93.8, 148.5)]"

text \<open>
  \<^verbatim>\<open>NTerzaghi[phi]\<close> reads the property whose name is the decimal text of \<open>phi\<close>. The object has
  the property names \<^verbatim>\<open>"0"\<close> to \<^verbatim>\<open>"41"\<close>, so the read finds an entry exactly when \<open>phi\<close> is a
  whole number that is a key; otherwise it yields \<^verbatim>\<open>undefined\<close> (here \<open>None\<close>).
\<close>

definition NTerzaghi_get :: "real \<Rightarrow> (real \<times> real \<times> real) option" where
  "NTerzaghi_get p = (if of_int \<lfloor>p\<rfloor> = p then map_of NTerzaghi \<lfloor>p\<rfloor> else None)"

section \<open>The class \<^verbatim>\<open>TerzaghiBearingCapacity\<close>\<close>

text \<open>
  The only way the constructor can fail is line 117: indexing \<^verbatim>\<open>undefined\<close> raises a
  \<^verbatim>\<open>TypeError\<close>. The class has no validation and no error classes of its own.
\<close>

datatype error = TypeError

text \<open>
  The fields of an instance. \<open>groundwaterDepth\<close> is the field after line 97, always a number.
  The field \<^verbatim>\<open>calculation\<close>, a string built from the decimal text of the other fields, is
  left out: it feeds nothing else. The \<^verbatim>\<open>console.log\<close> of the default shape branch is
  diagnostic output and is left out as well.
\<close>

record TerzaghiBearingCapacity =
  cohesion :: real
  phi :: real
  depth :: real
  unitWeight :: real
  width :: real
  shape :: string
  groundwaterDepth :: real
  FS :: real
  effectiveUnitWeight :: real
  effectiveStress :: number
  Nc :: real
  Nq :: real
  Ng :: real
  coef1 :: real
  coef2 :: real
  coef3 :: real
  equation :: string
  bearingCapacity :: number
  allowableCapacity :: number

text \<open>
  Line 97: \<^verbatim>\<open>if (!this.groundwaterDepth) this.groundwaterDepth = 2 * (this.depth + this.width)\<close>.
  The argument is \<^verbatim>\<open>undefined\<close> (\<open>None\<close>) or a number; the falsy ones are \<^verbatim>\<open>undefined\<close> and \<open>0\<close>.
\<close>

definition set_groundwaterDepth :: "real \<Rightarrow> real \<Rightarrow> real option \<Rightarrow> real" where
  "set_groundwaterDepth d w gw =
     (case gw of
        None \<Rightarrow> 2 * (d + w)
      | Some x \<Rightarrow> if x = 0 then 2 * (d + w) else x)"

text \<open>Lines 100 to 106; \<open>gwd\<close> is \<^verbatim>\<open>this.groundwaterDepth\<close>.\<close>

definition calc_effectiveUnitWeight :: "real \<Rightarrow> real \<Rightarrow> real \<Rightarrow> real \<Rightarrow> real" where
  "calc_effectiveUnitWeight g d w gwd =
     (if gwd \<le> d then g - unitWeightWater
      else if d < gwd \<and> gwd < d + w then g - unitWeightWater * (1 - (gwd - d) / w)
      else g)"

text \<open>
  Lines 109 to 114. The test reads \<^verbatim>\<open>this.groundwaterDepth\<close> (\<open>gwd\<close>), the pore pressure reads
  the constructor's argument \<^verbatim>\<open>groundwaterDepth\<close> (\<open>gw\<close>); subtracting \<^verbatim>\<open>undefined\<close> gives \<^verbatim>\<open>NaN\<close>.
\<close>

definition calc_effectiveStress :: "real \<Rightarrow> real \<Rightarrow> real option \<Rightarrow> real \<Rightarrow> number" where
  "calc_effectiveStress g d gw gwd =
     (if gwd \<ge> d then Num (g * d)
      else (case gw of
              None \<Rightarrow> NaN
            | Some x \<Rightarrow>
                (let totalStress = g * d;
                     porePressure = (d - x) * unitWeightWater
                 in Num (totalStress - porePressure))))"

text \<open>Lines 122 to 148: the term coefficients and the equation, by shape.\<close>

definition shape_switch :: "string \<Rightarrow> real \<times> real \<times> real \<times> string" where
  "shape_switch s =
     (if s = ''square'' then
        (1.3, 1, 0.4, ''(1.3 c * Nq) + (Eff.Stress * Nq) + (0.4 * gamma * B * Ng)'')
      else if s = ''continuous'' then
        (1, 1, 0.5, ''(c * Nq) + (Eff.Stress * Nq) + (0.5 * gamma * B * Ng)'')
      else if s = ''circular'' then
        (1.3, 1, 0.3, ''(1.3 c * Nq) + (Eff.Stress * Nq) + (0.3 * gamma * B * Ng)'')
      else
        (1, 1, 0.5, ''(c * Nq) + (Eff.Stress * Nq) + (0.5 * gamma * B * Ng)''))"

text \<open>Line 151. Only the effective stress can be other than a finite number.\<close>

definition calc_bearingCapacity ::
  "real \<Rightarrow> real \<Rightarrow> real \<Rightarrow> real \<Rightarrow> number \<Rightarrow> real \<Rightarrow> real \<Rightarrow> real \<Rightarrow> real \<Rightarrow> real \<Rightarrow> number" where
  "calc_bearingCapacity c1 c nc c2 es nq c3 euw w ng =
     Math_round
       (js_add (js_add (Num (c1 * c * nc)) (js_mul (js_mul (Num c2) es) (Num nq)))
               (Num (c3 * euw * w * ng)))"

text \<open>The constructor, with its eight arguments in the order of the source.\<close>

definition new_TerzaghiBearingCapacity ::
  "real \<Rightarrow> real \<Rightarrow> real \<Rightarrow> real \<Rightarrow> real \<Rightarrow> string \<Rightarrow> real option \<Rightarrow> real
     \<Rightarrow> error + TerzaghiBearingCapacity" where
  "new_TerzaghiBearingCapacity c p d g w s gw fs =
     (let gwd = set_groundwaterDepth d w gw;
          euw = calc_effectiveUnitWeight g d w gwd;
          es = calc_effectiveStress g d gw gwd
      in case NTerzaghi_get p of
           None \<Rightarrow> Inl TypeError
         | Some (nc, nq, ng) \<Rightarrow>
             (case shape_switch s of
                (c1, c2, c3, eq) \<Rightarrow>
                  (let bc = calc_bearingCapacity c1 c nc c2 es nq c3 euw w ng;
                       ac = Math_round (js_div bc (Num fs))
                   in Inr \<lparr> cohesion = c, phi = p, depth = d, unitWeight = g, width = w,
                            shape = s, groundwaterDepth = gwd, FS = fs,
                            effectiveUnitWeight = euw, effectiveStress = es,
                            Nc = nc, Nq = nq, Ng = ng,
                            coef1 = c1, coef2 = c2, coef3 = c3, equation = eq,
                            bearingCapacity = bc, allowableCapacity = ac \<rparr>)))"

section \<open>Input ranges\<close>

text \<open>
  The class comment lists what the constructor expects: \<open>phi\<close> an integer from 0 to 41,
  cohesion and depth non-negative, unit weight positive, a groundwater depth that is a
  non-negative number or \<^verbatim>\<open>undefined\<close>. The width divides in line 103 and the factor of safety
  in line 153; both are taken positive.
\<close>

definition valid_phi :: "real \<Rightarrow> bool" where
  "valid_phi p \<longleftrightarrow> of_int \<lfloor>p\<rfloor> = p \<and> 0 \<le> p \<and> p \<le> 41"


section \<open>The factor table\<close>

lemmas constructor_defs =
  new_TerzaghiBearingCapacity_def set_groundwaterDepth_def calc_effectiveUnitWeight_def
  calc_effectiveStress_def shape_switch_def calc_bearingCapacity_def unitWeightWater_def

lemma upto_0_41:
  "[0..41::int] =
     [0, 1, 2, 3, 4, 5, 6, 7, 8, 9, 10, 11, 12, 13, 14, 15, 16, 17, 18, 19, 20,
      21, 22, 23, 24, 25, 26, 27, 28, 29, 30, 31, 32, 33, 34, 35, 36, 37, 38, 39, 40, 41]"
  by (simp add: upto.simps)

lemma NTerzaghi_keys: "map fst NTerzaghi = [0..41]"
  unfolding upto_0_41 by (simp add: NTerzaghi_def)

lemma NTerzaghi_length: "length NTerzaghi = 42"
  by (simp add: NTerzaghi_def)

lemma NTerzaghi_fst_nth:
  assumes "0 \<le> k" "k \<le> 41"
  shows "fst (NTerzaghi ! nat k) = k"
proof -
  have n: "nat k < length NTerzaghi"
    using assms by (simp add: NTerzaghi_length)
  have "fst (NTerzaghi ! nat k) = [0..41] ! nat k"
    using n NTerzaghi_keys by (metis nth_map)
  also have "\<dots> = k"
    using assms by simp
  finally show ?thesis .
qed

lemma map_of_NTerzaghi:
  assumes "0 \<le> k" "k \<le> 41"
  shows "map_of NTerzaghi k = Some (snd (NTerzaghi ! nat k))"
proof -
  have d: "distinct (map fst NTerzaghi)"
    unfolding NTerzaghi_keys by simp
  have n: "nat k < length NTerzaghi"
    using assms by (simp add: NTerzaghi_length)
  have "(k, snd (NTerzaghi ! nat k)) \<in> set NTerzaghi"
    using n NTerzaghi_fst_nth [OF assms] by (metis nth_mem prod.collapse)
  then show ?thesis
    using d by simp
qed

lemma map_of_NTerzaghi_None:
  assumes "k < 0 \<or> 41 < k"
  shows "map_of NTerzaghi k = None"
proof -
  have "k \<notin> set (map fst NTerzaghi)"
    unfolding NTerzaghi_keys using assms by auto
  then show ?thesis
    by (simp add: map_of_eq_None_iff)
qed

lemma valid_phi_floor: "valid_phi p \<Longrightarrow> 0 \<le> \<lfloor>p\<rfloor> \<and> \<lfloor>p\<rfloor> \<le> 41"
  unfolding valid_phi_def by (simp add: floor_le_iff)

lemma valid_phi_of_int: "valid_phi (of_int k) \<longleftrightarrow> 0 \<le> k \<and> k \<le> 41"
  by (simp add: valid_phi_def)

lemma NTerzaghi_get_valid:
  assumes "valid_phi p"
  shows "NTerzaghi_get p = Some (snd (NTerzaghi ! nat \<lfloor>p\<rfloor>))"
  using assms valid_phi_floor [OF assms]
  by (simp add: NTerzaghi_get_def valid_phi_def map_of_NTerzaghi)

lemma NTerzaghi_get_invalid:
  assumes "\<not> valid_phi p"
  shows "NTerzaghi_get p = None"
proof (cases "of_int \<lfloor>p\<rfloor> = p")
  case False
  then show ?thesis
    by (simp add: NTerzaghi_get_def)
next
  case True
  define k where "k = \<lfloor>p\<rfloor>"
  have pk: "p = of_int k"
    unfolding k_def using True by (rule sym)
  from assms True have "p < 0 \<or> 41 < p"
    by (auto simp: valid_phi_def)
  then have "k < 0 \<or> 41 < k"
    unfolding pk by simp
  then have "map_of NTerzaghi k = None"
    by (rule map_of_NTerzaghi_None)
  then show ?thesis
    by (simp add: NTerzaghi_get_def k_def)
qed

section \<open>When the constructor returns\<close>

lemma new_invalid_phi:
  "\<not> valid_phi p \<Longrightarrow> new_TerzaghiBearingCapacity c p d g w s gw fs = Inl TypeError"
  by (simp add: new_TerzaghiBearingCapacity_def NTerzaghi_get_invalid Let_def)

lemma new_valid_phi:
  assumes "valid_phi p"
  shows "\<exists>r. new_TerzaghiBearingCapacity c p d g w s gw fs = Inr r"
  using NTerzaghi_get_valid [OF assms]
  by (simp add: new_TerzaghiBearingCapacity_def Let_def split: prod.splits)

lemma new_fields:
  assumes "valid_phi p"
  shows "\<exists>r. new_TerzaghiBearingCapacity c p d g w s gw fs = Inr r
     \<and> groundwaterDepth r = set_groundwaterDepth d w gw
     \<and> effectiveUnitWeight r = calc_effectiveUnitWeight g d w (set_groundwaterDepth d w gw)
     \<and> effectiveStress r = calc_effectiveStress g d gw (set_groundwaterDepth d w gw)
     \<and> (Nc r, Nq r, Ng r) = snd (NTerzaghi ! nat \<lfloor>p\<rfloor>)
     \<and> (coef1 r, coef2 r, coef3 r, equation r) = shape_switch s
     \<and> bearingCapacity r =
         calc_bearingCapacity (coef1 r) c (Nc r) (coef2 r) (effectiveStress r) (Nq r)
           (coef3 r) (effectiveUnitWeight r) w (Ng r)
     \<and> allowableCapacity r = Math_round (js_div (bearingCapacity r) (Num fs))"
  using NTerzaghi_get_valid [OF assms]
  by (simp add: new_TerzaghiBearingCapacity_def Let_def split: prod.splits)

lemma valid_phi_iff: "valid_phi p \<longleftrightarrow> p \<in> \<int> \<and> 0 \<le> p \<and> p \<le> 41"
  by (auto simp: valid_phi_def Ints_def)

text \<open>Line 103 divides by the width only in a branch where the width is positive.\<close>

lemma width_positive_in_influence_zone:
  fixes d gwd w :: real
  shows "d < gwd \<and> gwd < d + w \<Longrightarrow> 0 < w"
  by simp


section \<open>The factor of safety\<close>




section \<open>Groundwater\<close>

text \<open>
  For a supplied groundwater depth other than 0 the constructor follows the three-case rule
  for the effective unit weight and the two-case rule for the effective stress.
\<close>

lemma effectiveUnitWeight_rule:
  assumes "valid_phi p" "x \<noteq> 0"
  shows "\<exists>r. new_TerzaghiBearingCapacity c p d g w s (Some x) fs = Inr r \<and>
     effectiveUnitWeight r =
       (if x \<le> d then g - 62.4
        else if d < x \<and> x < d + w then g - 62.4 * (1 - (x - d) / w)
        else g)"
  using new_fields [OF assms(1), of c d g w s "Some x" fs] assms(2)
  by (auto simp: set_groundwaterDepth_def calc_effectiveUnitWeight_def unitWeightWater_def)

lemma effectiveStress_rule:
  assumes "valid_phi p" "x \<noteq> 0"
  shows "\<exists>r. new_TerzaghiBearingCapacity c p d g w s (Some x) fs = Inr r \<and>
     effectiveStress r = (if x \<ge> d then Num (g * d) else Num (g * d - (d - x) * 62.4))"
  using new_fields [OF assms(1), of c d g w s "Some x" fs] assms(2)
  by (auto simp: set_groundwaterDepth_def calc_effectiveStress_def unitWeightWater_def)

text \<open>
  Claim C2 at a groundwater depth of 0, the water table at the surface. The depth is
  \<open>3 \<ge> 0\<close>, so the rule gives an effective unit weight of \<open>120 - 62.4\<close>; the constructor
  takes the 0 for a missing depth (line 97) and leaves the unit weight at 120.
\<close>

theorem groundwater_zero_effectiveUnitWeight:
  "map_sum id effectiveUnitWeight
     (new_TerzaghiBearingCapacity 0 30 3 120 4 ''continuous'' (Some 0) 3) = Inr 120 \<and>
   (0 :: real) \<le> 3 \<and> 120 - unitWeightWater \<noteq> 120"
  by (simp add: constructor_defs NTerzaghi_get_def NTerzaghi_def Let_def)

text \<open>
  Claim C3 at a groundwater depth of 0. The depth is \<open>3 > 0\<close>, so the rule gives an
  effective stress of \<open>120 * 3 - (3 - 0) * 62.4\<close>; the constructor takes the 0 for a missing
  depth (line 97) and returns the total stress 360.
\<close>

theorem groundwater_zero_effectiveStress:
  "map_sum id effectiveStress
     (new_TerzaghiBearingCapacity 0 30 3 120 4 ''continuous'' (Some 0) 3) = Inr (Num 360) \<and>
   (0 :: real) < 3 \<and> 120 * 3 - (3 - 0) * unitWeightWater \<noteq> 360"
  by (simp add: constructor_defs NTerzaghi_get_def NTerzaghi_def Let_def)

section \<open>The bearing capacity\<close>



section \<open>The factor lookup\<close>

text \<open>
  Claim C5. For every integer \<open>k\<close> from 0 to 41 the table has the key \<open>k\<close> at position \<open>k\<close>,
  the lookup returns the triple stored there, unchanged, and the constructor stores that
  triple in \<open>Nc\<close>, \<open>Nq\<close>, \<open>Ng\<close>. The lookup of 0 is \<open>(5.7, 1, 0)\<close>, of 30 is
  \<open>(37.2, 22.5, 20.1)\<close> and of 41 is \<open>(106.8, 93.8, 148.5)\<close>.
\<close>

theorem lookup_returns_table_entry:
  "(\<forall>k\<in>{0..41}.
      fst (NTerzaghi ! nat k) = k \<and>
      NTerzaghi_get (of_int k) = Some (snd (NTerzaghi ! nat k)) \<and>
      map_sum id (\<lambda>r. (Nc r, Nq r, Ng r))
        (new_TerzaghiBearingCapacity c (of_int k) d g w s gw fs)
        = Inr (snd (NTerzaghi ! nat k))) \<and>
   NTerzaghi_get 0 = Some (5.7, 1, 0) \<and>
   NTerzaghi_get 30 = Some (37.2, 22.5, 20.1) \<and>
   NTerzaghi_get 41 = Some (106.8, 93.8, 148.5)"
proof (intro conjI ballI)
  fix k :: int
  assume "k \<in> {0..41}"
  then have k: "0 \<le> k" "k \<le> 41"
    by simp_all
  then have v: "valid_phi (of_int k)"
    by (simp add: valid_phi_of_int)
  show "fst (NTerzaghi ! nat k) = k"
    using k by (rule NTerzaghi_fst_nth)
  show "NTerzaghi_get (of_int k) = Some (snd (NTerzaghi ! nat k))"
    using NTerzaghi_get_valid [OF v] by simp
  from new_fields [OF v, of c d g w s gw fs] obtain r where
    "new_TerzaghiBearingCapacity c (of_int k) d g w s gw fs = Inr r"
    "(Nc r, Nq r, Ng r) = snd (NTerzaghi ! nat \<lfloor>real_of_int k\<rfloor>)"
    by blast
  then show "map_sum id (\<lambda>r. (Nc r, Nq r, Ng r))
        (new_TerzaghiBearingCapacity c (of_int k) d g w s gw fs)
        = Inr (snd (NTerzaghi ! nat k))"
    by simp
next
  show "NTerzaghi_get 0 = Some (5.7, 1, 0)"
    by (simp add: NTerzaghi_get_def NTerzaghi_def)
  show "NTerzaghi_get 30 = Some (37.2, 22.5, 20.1)"
    by (simp add: NTerzaghi_get_def NTerzaghi_def)
  show "NTerzaghi_get 41 = Some (106.8, 93.8, 148.5)"
    by (simp add: NTerzaghi_get_def NTerzaghi_def)
qed

text \<open>The lookup of 17 is \<open>(14.6, 5.5, 2.9)\<close>, and the constructor stores it.\<close>

theorem lookup_returns_table_entry_witness:
  "(17::int) \<in> {0..41} \<and> NTerzaghi_get 17 = Some (14.6, 5.5, 2.9) \<and>
   map_sum id (\<lambda>r. (Nc r, Nq r, Ng r))
     (new_TerzaghiBearingCapacity 0 17 3 120 4 ''circular'' None 3) = Inr (14.6, 5.5, 2.9)"
proof -
  have k: "(17::int) \<in> {0..41}"
    by simp
  have t: "snd (NTerzaghi ! nat 17) = (14.6, 5.5, 2.9)"
    by (simp add: NTerzaghi_def)
  from lookup_returns_table_entry [of 0 3 120 4 "''circular''" None 3,
      THEN conjunct1, rule_format, OF k] t k
  show ?thesis
    by simp
qed

text \<open>
  Claim C6. For every \<open>phi\<close> that is not an integer from 0 to 41 the table has no entry and
  the constructor fails: it returns no instance, and nothing is clamped or extrapolated.
  (The failure is the \<^verbatim>\<open>TypeError\<close> that reading index 0 of \<^verbatim>\<open>undefined\<close> raises in line 117;
  the code has no error class of its own for it.) In particular this holds for 42 and -1.
\<close>

theorem lookup_fails_outside_table:
  "(\<not> valid_phi p \<longrightarrow>
      NTerzaghi_get p = None \<and>
      new_TerzaghiBearingCapacity c p d g w s gw fs = Inl TypeError) \<and>
   NTerzaghi_get 42 = None \<and> NTerzaghi_get (- 1) = None \<and>
   new_TerzaghiBearingCapacity c 42 d g w s gw fs = Inl TypeError \<and>
   new_TerzaghiBearingCapacity c (- 1) d g w s gw fs = Inl TypeError"
proof -
  have a: "\<not> valid_phi 42" and b: "\<not> valid_phi (- 1)"
    by (simp_all add: valid_phi_def)
  show ?thesis
    using a b by (simp add: NTerzaghi_get_invalid new_invalid_phi)
qed

text \<open>A \<open>phi\<close> of 30.5 lies between two keys: nothing is interpolated, the constructor fails.\<close>

theorem lookup_fails_outside_table_witness:
  "\<not> valid_phi 30.5 \<and> NTerzaghi_get 30.5 = None \<and>
   new_TerzaghiBearingCapacity 0 30.5 3 120 4 ''continuous'' None 3 = Inl TypeError"
proof -
  have a: "\<not> valid_phi 30.5"
    by (simp add: valid_phi_def)
  from lookup_fails_outside_table [of "30.5" 0 3 120 4 "''continuous''" None 3,
      THEN conjunct1, rule_format, OF a] a
  show ?thesis
    by simp
qed

section \<open>The default groundwater depth\<close>

text \<open>
  Claim C7. When the groundwater depth is omitted, the instance has the groundwater depth
  \<open>2 * (depth + width)\<close>, and the case analysis is made on that value: the effective unit
  weight is the three-case rule at \<open>2 * (depth + width)\<close>, and the effective stress is the
  total stress when that value is at least the depth. With depth 3.5 and width 4 the
  substituted value is 15.
\<close>

theorem groundwaterDepth_default:
  "(valid_phi p \<longrightarrow>
      (\<exists>r. new_TerzaghiBearingCapacity c p d g w s None fs = Inr r \<and>
         groundwaterDepth r = 2 * (d + w) \<and>
         effectiveUnitWeight r =
           (if 2 * (d + w) \<le> d then g - 62.4
            else if d < 2 * (d + w) \<and> 2 * (d + w) < d + w
                 then g - 62.4 * (1 - (2 * (d + w) - d) / w)
                 else g) \<and>
         (d \<le> 2 * (d + w) \<longrightarrow> effectiveStress r = Num (g * d)))) \<and>
   set_groundwaterDepth 3.5 4 None = 15 \<and>
   (valid_phi p \<longrightarrow>
      map_sum id groundwaterDepth
        (new_TerzaghiBearingCapacity c p 3.5 g 4 s None fs) = Inr 15)"
proof (intro conjI impI)
  assume v: "valid_phi p"
  from new_fields [OF v, of c d g w s None fs] obtain r where
    "new_TerzaghiBearingCapacity c p d g w s None fs = Inr r"
    "groundwaterDepth r = set_groundwaterDepth d w None"
    "effectiveUnitWeight r = calc_effectiveUnitWeight g d w (set_groundwaterDepth d w None)"
    "effectiveStress r = calc_effectiveStress g d None (set_groundwaterDepth d w None)"
    by blast
  then show "\<exists>r. new_TerzaghiBearingCapacity c p d g w s None fs = Inr r \<and>
         groundwaterDepth r = 2 * (d + w) \<and>
         effectiveUnitWeight r =
           (if 2 * (d + w) \<le> d then g - 62.4
            else if d < 2 * (d + w) \<and> 2 * (d + w) < d + w
                 then g - 62.4 * (1 - (2 * (d + w) - d) / w)
                 else g) \<and>
         (d \<le> 2 * (d + w) \<longrightarrow> effectiveStress r = Num (g * d))"
    by (simp add: set_groundwaterDepth_def calc_effectiveUnitWeight_def
        calc_effectiveStress_def unitWeightWater_def)
next
  show "set_groundwaterDepth 3.5 4 None = 15"
    by (simp add: set_groundwaterDepth_def)
next
  assume v: "valid_phi p"
  from new_fields [OF v, of c "3.5" g 4 s None fs] obtain r where
    "new_TerzaghiBearingCapacity c p 3.5 g 4 s None fs = Inr r"
    "groundwaterDepth r = set_groundwaterDepth 3.5 4 None"
    by blast
  then show "map_sum id groundwaterDepth
        (new_TerzaghiBearingCapacity c p 3.5 g 4 s None fs) = Inr 15"
    by (simp add: set_groundwaterDepth_def)
qed

text \<open>With \<open>phi = 30\<close>: depth 3.5 and width 4 give 15, depth 3 and width 4 give 14.\<close>

theorem groundwaterDepth_default_witness:
  "valid_phi 30 \<and>
   map_sum id groundwaterDepth
     (new_TerzaghiBearingCapacity 0 30 3.5 120 4 ''continuous'' None 3) = Inr 15 \<and>
   map_sum id groundwaterDepth
     (new_TerzaghiBearingCapacity 0 30 3 120 4 ''continuous'' None 3) = Inr 14"
proof -
  have v: "valid_phi 30"
    by (simp add: valid_phi_def)
  note t = groundwaterDepth_default [of 30 0 3 120 4 "''continuous''" 3]
  from t [THEN conjunct1, rule_format, OF v]
  have "map_sum id groundwaterDepth
     (new_TerzaghiBearingCapacity 0 30 3 120 4 ''continuous'' None 3) = Inr 14"
    by auto
  moreover from t [THEN conjunct2, THEN conjunct2, rule_format, OF v]
  have "map_sum id groundwaterDepth
     (new_TerzaghiBearingCapacity 0 30 3.5 120 4 ''continuous'' None 3) = Inr 15" .
  ultimately show ?thesis
    using v by simp
qed

text \<open>
  Claim C8. With a depth \<open>D \<ge> 0\<close>, a width \<open>B > 0\<close> and the groundwater depth omitted, the
  substituted depth \<open>2 * (D + B)\<close> is at least \<open>D + B\<close> and at least \<open>D\<close>, so the effective
  unit weight is the unit weight and the effective stress is unit weight times depth.
\<close>

theorem groundwater_correction_disabled:
  assumes "0 \<le> d" "0 < w" "valid_phi p"
  shows "\<exists>r. new_TerzaghiBearingCapacity c p d g w s None fs = Inr r \<and>
     groundwaterDepth r = 2 * (d + w) \<and>
     groundwaterDepth r \<ge> d + w \<and> groundwaterDepth r \<ge> d \<and>
     effectiveUnitWeight r = g \<and> effectiveStress r = Num (g * d)"
proof -
  from new_fields [OF assms(3), of c d g w s None fs] obtain r where
    "new_TerzaghiBearingCapacity c p d g w s None fs = Inr r"
    "groundwaterDepth r = set_groundwaterDepth d w None"
    "effectiveUnitWeight r = calc_effectiveUnitWeight g d w (set_groundwaterDepth d w None)"
    "effectiveStress r = calc_effectiveStress g d None (set_groundwaterDepth d w None)"
    by blast
  then show ?thesis
    using assms(1,2)
    by (simp add: set_groundwaterDepth_def calc_effectiveUnitWeight_def calc_effectiveStress_def)
qed

text \<open>Depth 3, width 4, unit weight 120: effective unit weight 120, effective stress 360.\<close>

theorem groundwater_correction_disabled_witness:
  "(0::real) \<le> 3 \<and> (0::real) < 4 \<and> valid_phi 30 \<and>
   map_sum id effectiveUnitWeight
     (new_TerzaghiBearingCapacity 0 30 3 120 4 ''continuous'' None 3) = Inr 120 \<and>
   map_sum id effectiveStress
     (new_TerzaghiBearingCapacity 0 30 3 120 4 ''continuous'' None 3) = Inr (Num 360)"
proof -
  have v: "valid_phi 30"
    by (simp add: valid_phi_def)
  have d: "(0::real) \<le> 3" and w: "(0::real) < 4"
    by simp_all
  from groundwater_correction_disabled [OF d w v, of 0 120 "''continuous''" 3] v
  show ?thesis
    by auto
qed

section \<open>The shape\<close>

text \<open>
  Claim C9. The shape \<^verbatim>\<open>"square"\<close> gives the coefficients \<open>(1.3, 1, 0.4)\<close>, \<^verbatim>\<open>"circular"\<close> gives
  \<open>(1.3, 1, 0.3)\<close>, \<^verbatim>\<open>"continuous"\<close> gives \<open>(1, 1, 0.5)\<close>, and any other string gives what
  \<^verbatim>\<open>"continuous"\<close> gives; the shape never makes the constructor fail. The second coefficient
  is 1 for every shape, so two instances that differ in the shape only have the same
  surcharge term \<open>coef2 * effectiveStress * Nq\<close>.
\<close>

theorem shape_coefficients:
  "shape_switch ''square'' =
     (1.3, 1, 0.4, ''(1.3 c * Nq) + (Eff.Stress * Nq) + (0.4 * gamma * B * Ng)'') \<and>
   shape_switch ''circular'' =
     (1.3, 1, 0.3, ''(1.3 c * Nq) + (Eff.Stress * Nq) + (0.3 * gamma * B * Ng)'') \<and>
   shape_switch ''continuous'' =
     (1, 1, 0.5, ''(c * Nq) + (Eff.Stress * Nq) + (0.5 * gamma * B * Ng)'') \<and>
   (s \<notin> {''square'', ''circular'', ''continuous''} \<longrightarrow>
      shape_switch s = shape_switch ''continuous'') \<and>
   (valid_phi p \<longrightarrow>
     (\<exists>r. new_TerzaghiBearingCapacity c p d g w s gw fs = Inr r \<and>
        (coef1 r, coef2 r, coef3 r) =
          (if s = ''square'' then (1.3, 1, 0.4)
           else if s = ''circular'' then (1.3, 1, 0.3)
           else (1, 1, 0.5)) \<and>
        (\<forall>s'. \<exists>r'. new_TerzaghiBearingCapacity c p d g w s' gw fs = Inr r' \<and>
           coef2 r' = coef2 r \<and> effectiveStress r' = effectiveStress r \<and> Nq r' = Nq r \<and>
           js_mul (js_mul (Num (coef2 r')) (effectiveStress r')) (Num (Nq r'))
             = js_mul (js_mul (Num (coef2 r)) (effectiveStress r)) (Num (Nq r)))))"
proof (intro conjI impI)
  assume v: "valid_phi p"
  from new_fields [OF v, of c d g w s gw fs] obtain r where
    r: "new_TerzaghiBearingCapacity c p d g w s gw fs = Inr r"
    and e: "effectiveStress r = calc_effectiveStress g d gw (set_groundwaterDepth d w gw)"
    and n: "(Nc r, Nq r, Ng r) = snd (NTerzaghi ! nat \<lfloor>p\<rfloor>)"
    and k: "(coef1 r, coef2 r, coef3 r, equation r) = shape_switch s"
    by blast
  have k2: "coef2 r = 1"
    using k by (auto simp: shape_switch_def split: if_splits)
  have "\<exists>r'. new_TerzaghiBearingCapacity c p d g w s' gw fs = Inr r' \<and>
           coef2 r' = coef2 r \<and> effectiveStress r' = effectiveStress r \<and> Nq r' = Nq r \<and>
           js_mul (js_mul (Num (coef2 r')) (effectiveStress r')) (Num (Nq r'))
             = js_mul (js_mul (Num (coef2 r)) (effectiveStress r)) (Num (Nq r))" for s'
  proof -
    from new_fields [OF v, of c d g w s' gw fs] obtain r' where
      r': "new_TerzaghiBearingCapacity c p d g w s' gw fs = Inr r'"
      and e': "effectiveStress r' = calc_effectiveStress g d gw (set_groundwaterDepth d w gw)"
      and n': "(Nc r', Nq r', Ng r') = snd (NTerzaghi ! nat \<lfloor>p\<rfloor>)"
      and k': "(coef1 r', coef2 r', coef3 r', equation r') = shape_switch s'"
      by blast
    have "coef2 r' = 1"
      using k' by (auto simp: shape_switch_def split: if_splits)
    moreover have "Nq r' = Nq r"
      using n n' by (metis Pair_inject)
    ultimately show ?thesis
      using r' e e' k2 by simp
  qed
  moreover have "(coef1 r, coef2 r, coef3 r) =
          (if s = ''square'' then (1.3, 1, 0.4)
           else if s = ''circular'' then (1.3, 1, 0.3)
           else (1, 1, 0.5))"
    using k by (auto simp: shape_switch_def split: if_splits)
  ultimately show "\<exists>r. new_TerzaghiBearingCapacity c p d g w s gw fs = Inr r \<and>
        (coef1 r, coef2 r, coef3 r) =
          (if s = ''square'' then (1.3, 1, 0.4)
           else if s = ''circular'' then (1.3, 1, 0.3)
           else (1, 1, 0.5)) \<and>
        (\<forall>s'. \<exists>r'. new_TerzaghiBearingCapacity c p d g w s' gw fs = Inr r' \<and>
           coef2 r' = coef2 r \<and> effectiveStress r' = effectiveStress r \<and> Nq r' = Nq r \<and>
           js_mul (js_mul (Num (coef2 r')) (effectiveStress r')) (Num (Nq r'))
             = js_mul (js_mul (Num (coef2 r)) (effectiveStress r)) (Num (Nq r)))"
    using r by blast
qed (simp_all add: shape_switch_def)

text \<open>The shape \<^verbatim>\<open>"triangular"\<close> is not one of the three: it gets \<open>(1, 1, 0.5)\<close>.\<close>

theorem shape_coefficients_witness:
  "''triangular'' \<notin> {''square'', ''circular'', ''continuous''} \<and> valid_phi 30 \<and>
   shape_switch ''triangular'' =
     (1, 1, 0.5, ''(c * Nq) + (Eff.Stress * Nq) + (0.5 * gamma * B * Ng)'') \<and>
   map_sum id coef1
     (new_TerzaghiBearingCapacity 0 30 3 120 4 ''triangular'' None 3) = Inr 1 \<and>
   map_sum id coef2
     (new_TerzaghiBearingCapacity 0 30 3 120 4 ''triangular'' None 3) = Inr 1 \<and>
   map_sum id coef3
     (new_TerzaghiBearingCapacity 0 30 3 120 4 ''triangular'' None 3) = Inr 0.5"
proof -
  have v: "valid_phi 30"
    by (simp add: valid_phi_def)
  have u: "''triangular'' \<notin> {''square'', ''circular'', ''continuous''}"
    by simp
  note t = shape_coefficients [of "''triangular''" 30 0 3 120 4 None 3]
  from t u have "shape_switch ''triangular'' = shape_switch ''continuous''"
    by blast
  with t have a: "shape_switch ''triangular'' =
      (1, 1, 0.5, ''(c * Nq) + (Eff.Stress * Nq) + (0.5 * gamma * B * Ng)'')"
    by simp
  from t v obtain r where
    "new_TerzaghiBearingCapacity 0 30 3 120 4 ''triangular'' None 3 = Inr r"
    "(coef1 r, coef2 r, coef3 r) =
          (if ''triangular'' = ''square'' then (1.3, 1, 0.4)
           else if ''triangular'' = ''circular'' then (1.3, 1, 0.3)
           else (1, 1, 0.5))"
    by blast
  then have
    "map_sum id coef1
       (new_TerzaghiBearingCapacity 0 30 3 120 4 ''triangular'' None 3) = Inr 1"
    "map_sum id coef2
       (new_TerzaghiBearingCapacity 0 30 3 120 4 ''triangular'' None 3) = Inr 1"
    "map_sum id coef3
       (new_TerzaghiBearingCapacity 0 30 3 120 4 ''triangular'' None 3) = Inr 0.5"
    by simp_all
  with a u v show ?thesis
    by simp
qed

section \<open>A groundwater depth of 0\<close>

text \<open>
  Claim C10. With a depth \<open>D \<ge> 0\<close> and a width \<open>B > 0\<close>, a groundwater depth supplied as 0
  gives the result that an omitted groundwater depth gives: line 97 replaces the 0 by
  \<open>2 * (depth + width)\<close>, no buoyant reduction applies, the effective unit weight is the
  unit weight and the effective stress is unit weight times depth.
\<close>

theorem groundwater_zero_as_omitted:
  assumes "0 \<le> d" "0 < w"
  shows "new_TerzaghiBearingCapacity c p d g w s (Some 0) fs
           = new_TerzaghiBearingCapacity c p d g w s None fs \<and>
     (valid_phi p \<longrightarrow>
       (\<exists>r. new_TerzaghiBearingCapacity c p d g w s (Some 0) fs = Inr r \<and>
          groundwaterDepth r = 2 * (d + w) \<and>
          effectiveUnitWeight r = g \<and> effectiveStress r = Num (g * d)))"
proof (intro conjI impI)
  have "set_groundwaterDepth d w (Some 0) = set_groundwaterDepth d w None"
    by (simp add: set_groundwaterDepth_def)
  moreover have "calc_effectiveStress g d (Some 0) (set_groundwaterDepth d w None)
     = calc_effectiveStress g d None (set_groundwaterDepth d w None)"
    using assms by (simp add: calc_effectiveStress_def set_groundwaterDepth_def)
  ultimately show "new_TerzaghiBearingCapacity c p d g w s (Some 0) fs
           = new_TerzaghiBearingCapacity c p d g w s None fs"
    by (simp add: new_TerzaghiBearingCapacity_def)
next
  assume v: "valid_phi p"
  from new_fields [OF v, of c d g w s "Some 0" fs] obtain r where
    "new_TerzaghiBearingCapacity c p d g w s (Some 0) fs = Inr r"
    "groundwaterDepth r = set_groundwaterDepth d w (Some 0)"
    "effectiveUnitWeight r = calc_effectiveUnitWeight g d w (set_groundwaterDepth d w (Some 0))"
    "effectiveStress r = calc_effectiveStress g d (Some 0) (set_groundwaterDepth d w (Some 0))"
    by blast
  then show "\<exists>r. new_TerzaghiBearingCapacity c p d g w s (Some 0) fs = Inr r \<and>
          groundwaterDepth r = 2 * (d + w) \<and>
          effectiveUnitWeight r = g \<and> effectiveStress r = Num (g * d)"
    using assms
    by (simp add: set_groundwaterDepth_def calc_effectiveUnitWeight_def calc_effectiveStress_def)
qed

text \<open>Depth 3, width 4, unit weight 120 and a groundwater depth of 0: 14, 120 and 360.\<close>

theorem groundwater_zero_as_omitted_witness:
  "(0::real) \<le> 3 \<and> (0::real) < 4 \<and> valid_phi 30 \<and>
   new_TerzaghiBearingCapacity 0 30 3 120 4 ''continuous'' (Some 0) 3
     = new_TerzaghiBearingCapacity 0 30 3 120 4 ''continuous'' None 3 \<and>
   map_sum id groundwaterDepth
     (new_TerzaghiBearingCapacity 0 30 3 120 4 ''continuous'' (Some 0) 3) = Inr 14 \<and>
   map_sum id effectiveUnitWeight
     (new_TerzaghiBearingCapacity 0 30 3 120 4 ''continuous'' (Some 0) 3) = Inr 120 \<and>
   map_sum id effectiveStress
     (new_TerzaghiBearingCapacity 0 30 3 120 4 ''continuous'' (Some 0) 3) = Inr (Num 360)"
proof -
  have v: "valid_phi 30"
    by (simp add: valid_phi_def)
  have d: "(0::real) \<le> 3" and w: "(0::real) < 4"
    by simp_all
  note t = groundwater_zero_as_omitted [OF d w, of 0 30 120 "''continuous''" 3]
  from t v obtain r where
    "new_TerzaghiBearingCapacity 0 30 3 120 4 ''continuous'' (Some 0) 3 = Inr r"
    "groundwaterDepth r = 2 * (3 + 4)"
    "effectiveUnitWeight r = 120" "effectiveStress r = Num (120 * 3)"
    by blast
  then have
    "map_sum id groundwaterDepth
       (new_TerzaghiBearingCapacity 0 30 3 120 4 ''continuous'' (Some 0) 3) = Inr 14"
    "map_sum id effectiveUnitWeight
       (new_TerzaghiBearingCapacity 0 30 3 120 4 ''continuous'' (Some 0) 3) = Inr 120"
    "map_sum id effectiveStress
       (new_TerzaghiBearingCapacity 0 30 3 120 4 ''continuous'' (Some 0) 3) = Inr (Num 360)"
    by simp_all
  with t v show ?thesis
    by simp
qed

end
